theory Spec2Isabelle
  imports Complex_Main
begin

section \<open>Python errors and numpy arrays\<close>

text \<open>
  The development embeds \<^verbatim>\<open>hw5/decision_tree_starter.py\<close>: the class
  \<^verbatim>\<open>DecisionTree\<close> (entropy, information_gain, split, split_test, fit) and
  \<^verbatim>\<open>BaggedTrees.predict\<close>. Every exception the source can raise is a value of
  \<open>pyerror\<close>; a function that can raise returns \<open>pyerror + 'a\<close> with \<open>Inl\<close> for the
  exception.
\<close>

datatype pyerror = NameError string | ValueError | IndexError | ZeroDivisionError

text \<open>
  A two-dimensional float array \<^verbatim>\<open>X\<close> of shape \<open>(N, D)\<close>: \<open>rows X\<close> are its \<open>N\<close> rows
  (each of \<open>D\<close> entries, as numpy arrays are rectangular) and \<open>ncols X\<close> is \<open>D = X.shape[1]\<close>,
  kept on its own so that an array with no rows still has a column count. The entries are
  real numbers: the input contract is a real-valued matrix with no missing values, and
  float64 rounding is not modelled. A one-dimensional array is a list; class labels are
  integers.
\<close>

record matrix =
  ncols :: nat
  rows :: "real list list"

definition msize :: "matrix \<Rightarrow> nat" where
  \<comment> \<open>\<^verbatim>\<open>X.size\<close>: the number of entries\<close>
  "msize X = length (rows X) * ncols X"

definition col :: "matrix \<Rightarrow> nat \<Rightarrow> real list" where
  \<comment> \<open>\<^verbatim>\<open>X[:, i]\<close> for a column index in range\<close>
  "col X i = map (\<lambda>r. r ! i) (rows X)"

definition take_rows :: "matrix \<Rightarrow> nat list \<Rightarrow> matrix" where
  \<comment> \<open>\<^verbatim>\<open>X[idx, :]\<close> for an index array \<^verbatim>\<open>idx\<close> produced by \<^verbatim>\<open>np.where\<close> on a column of \<^verbatim>\<open>X\<close>\<close>
  "take_rows X idxs = X\<lparr>rows := map (\<lambda>i. rows X ! i) idxs\<rparr>"

definition np_where :: "bool list \<Rightarrow> nat list list" where
  \<comment> \<open>\<^verbatim>\<open>np.where(mask)\<close> on a one-dimensional mask: a tuple holding one index array\<close>
  "np_where msk = [filter (\<lambda>i. msk ! i) [0..<length msk]]"

definition bool_index :: "'a list \<Rightarrow> bool list \<Rightarrow> pyerror + 'a list" where
  \<comment> \<open>\<^verbatim>\<open>y[mask]\<close>: numpy raises IndexError when the mask's length is not the array's\<close>
  "bool_index y msk =
     (if length msk = length y then Inr (map fst (filter snd (zip y msk)))
      else Inl IndexError)"

definition int_index :: "'a list \<Rightarrow> nat list \<Rightarrow> pyerror + 'a list" where
  \<comment> \<open>\<^verbatim>\<open>y[idx]\<close> for an array of non-negative indices: IndexError when one is out of bounds\<close>
  "int_index y idxs =
     (if list_all (\<lambda>i. i < length y) idxs then Inr (map (\<lambda>i. y ! i) idxs)
      else Inl IndexError)"

section \<open>Python and numpy numbers\<close>

text \<open>
  A float64 value is a real number or one of the three special values; rounding and the
  sign of zero are not modelled. The operations follow IEEE 754 on the special values.
\<close>

datatype npfloat = Fin real | NaN | PosInf | NegInf

fun f_neg :: "npfloat \<Rightarrow> npfloat" where
  "f_neg (Fin a) = Fin (- a)"
| "f_neg NaN = NaN"
| "f_neg PosInf = NegInf"
| "f_neg NegInf = PosInf"

fun f_add :: "npfloat \<Rightarrow> npfloat \<Rightarrow> npfloat" where
  "f_add (Fin a) (Fin b) = Fin (a + b)"
| "f_add NaN b = NaN"
| "f_add a NaN = NaN"
| "f_add PosInf NegInf = NaN"
| "f_add NegInf PosInf = NaN"
| "f_add PosInf b = PosInf"
| "f_add a PosInf = PosInf"
| "f_add NegInf b = NegInf"
| "f_add a NegInf = NegInf"

definition f_sub :: "npfloat \<Rightarrow> npfloat \<Rightarrow> npfloat" where
  "f_sub a b = f_add a (f_neg b)"

fun f_mul :: "npfloat \<Rightarrow> npfloat \<Rightarrow> npfloat" where
  "f_mul (Fin a) (Fin b) = Fin (a * b)"
| "f_mul NaN b = NaN"
| "f_mul a NaN = NaN"
| "f_mul (Fin a) b = (if a = 0 then NaN else if a > 0 then b else f_neg b)"
| "f_mul a (Fin b) = (if b = 0 then NaN else if b > 0 then a else f_neg a)"
| "f_mul PosInf b = b"
| "f_mul NegInf b = f_neg b"

fun f_div :: "npfloat \<Rightarrow> npfloat \<Rightarrow> npfloat" where
  "f_div (Fin a) (Fin b) =
     (if b = 0 then (if a = 0 then NaN else if a > 0 then PosInf else NegInf)
      else Fin (a / b))"
| "f_div NaN b = NaN"
| "f_div a NaN = NaN"
| "f_div (Fin a) b = Fin 0"
| "f_div a (Fin b) = (if b \<ge> 0 then a else f_neg a)"
| "f_div a b = NaN"

text \<open>
  A scalar of the program is a Python \<^verbatim>\<open>int\<close>, a Python \<^verbatim>\<open>float\<close> (only finite ones
  arise: they are quotients of two ints) or a numpy \<^verbatim>\<open>float64\<close>. Arithmetic on two ints
  gives an int, anything with a float64 gives a float64, the rest a Python float. True
  division by zero raises ZeroDivisionError unless an operand is a float64, where numpy
  only warns and returns \<open>nan\<close> or an infinity.
\<close>

datatype pynum = PyInt int | PyFloat real | NpFloat npfloat

fun to_f64 :: "pynum \<Rightarrow> npfloat" where
  "to_f64 (PyInt i) = Fin (real_of_int i)"
| "to_f64 (PyFloat r) = Fin r"
| "to_f64 (NpFloat f) = f"

fun num_arith :: "(int \<Rightarrow> int \<Rightarrow> int) \<Rightarrow> (real \<Rightarrow> real \<Rightarrow> real) \<Rightarrow> (npfloat \<Rightarrow> npfloat \<Rightarrow> npfloat)
    \<Rightarrow> pynum \<Rightarrow> pynum \<Rightarrow> pynum" where
  "num_arith fi fr ff (PyInt i) (PyInt j) = PyInt (fi i j)"
| "num_arith fi fr ff (PyInt i) (PyFloat s) = PyFloat (fr (real_of_int i) s)"
| "num_arith fi fr ff (PyFloat r) (PyInt j) = PyFloat (fr r (real_of_int j))"
| "num_arith fi fr ff (PyFloat r) (PyFloat s) = PyFloat (fr r s)"
| "num_arith fi fr ff a b = NpFloat (ff (to_f64 a) (to_f64 b))"

definition num_add :: "pynum \<Rightarrow> pynum \<Rightarrow> pynum" where
  "num_add = num_arith (+) (+) f_add"

definition num_sub :: "pynum \<Rightarrow> pynum \<Rightarrow> pynum" where
  "num_sub = num_arith (-) (-) f_sub"

definition num_mul :: "pynum \<Rightarrow> pynum \<Rightarrow> pynum" where
  "num_mul = num_arith (*) (*) f_mul"

fun num_truediv :: "pynum \<Rightarrow> pynum \<Rightarrow> pyerror + pynum" where
  "num_truediv (NpFloat a) b = Inr (NpFloat (f_div a (to_f64 b)))"
| "num_truediv a (NpFloat b) = Inr (NpFloat (f_div (to_f64 a) b))"
| "num_truediv (PyInt i) (PyInt j) =
     (if j = 0 then Inl ZeroDivisionError else Inr (PyFloat (real_of_int i / real_of_int j)))"
| "num_truediv (PyInt i) (PyFloat s) =
     (if s = 0 then Inl ZeroDivisionError else Inr (PyFloat (real_of_int i / s)))"
| "num_truediv (PyFloat r) (PyInt j) =
     (if j = 0 then Inl ZeroDivisionError else Inr (PyFloat (r / real_of_int j)))"
| "num_truediv (PyFloat r) (PyFloat s) =
     (if s = 0 then Inl ZeroDivisionError else Inr (PyFloat (r / s)))"

definition finite_num :: "pynum \<Rightarrow> bool" where
  \<comment> \<open>the scalar is neither \<open>nan\<close> nor an infinity\<close>
  "finite_num v =
     (case to_f64 v of Fin a \<Rightarrow> True | NaN \<Rightarrow> False | PosInf \<Rightarrow> False | NegInf \<Rightarrow> False)"

section \<open>Module-level names\<close>

text \<open>
  A name that a function body reads and that is neither a parameter nor a local is looked
  up in the module's globals when the statement runs, and the lookup raises NameError
  when the name is unbound. Three such names are read by the functions below and bound
  nowhere in the module (no assignment, no \<^verbatim>\<open>def\<close>, no import binds them: the imports
  are \<^verbatim>\<open>Counter\<close>, \<^verbatim>\<open>np\<close>, \<^verbatim>\<open>genfromtxt\<close>, \<^verbatim>\<open>scipy\<close> (through \<^verbatim>\<open>import scipy.io\<close>),
  the sklearn names, \<^verbatim>\<open>graph_from_dot_data\<close>, \<^verbatim>\<open>io\<close> and \<^verbatim>\<open>random\<close>):
  \<^item> \<^verbatim>\<open>t\<close>, read by \<^verbatim>\<open>entropy\<close>, whose parameter is named \<^verbatim>\<open>y\<close> (the \<^verbatim>\<open>t\<close> of the list
    comprehension in \<^verbatim>\<open>fit\<close> is local to that comprehension);
  \<^item> \<^verbatim>\<open>stats\<close>, read by \<^verbatim>\<open>fit\<close> as \<^verbatim>\<open>stats.mode(y, keepdims=True).mode[0]\<close>;
  \<^item> \<^verbatim>\<open>mode\<close>, read by \<^verbatim>\<open>BaggedTrees.predict\<close> as \<^verbatim>\<open>mode(predictions, axis=1)[0].ravel()\<close>.
  The globals are a parameter of the model: each of the three names is unbound (\<open>None\<close>)
  or bound. A binding of \<^verbatim>\<open>t\<close> is a label array; a binding of \<^verbatim>\<open>stats\<close> or \<^verbatim>\<open>mode\<close> is
  given by what the expression that reads it computes. \<open>module_globals\<close> are the globals of
  the module as it is written.
\<close>

record globals =
  t_binding :: "int list option"
  stats_binding :: "(int list \<Rightarrow> pyerror + int) option"
  mode_binding :: "(real list list \<Rightarrow> pyerror + real list) option"

definition module_globals :: globals where
  "module_globals = \<lparr>t_binding = None, stats_binding = None, mode_binding = None\<rparr>"

section \<open>Impurity: entropy and information gain\<close>

definition np_unique :: "int list \<Rightarrow> int list" where
  \<comment> \<open>\<^verbatim>\<open>np.unique\<close>: the distinct values, ascending\<close>
  "np_unique xs = sort (remdups xs)"

text \<open>
  \<^verbatim>\<open>
  @staticmethod
  def entropy(y):
      e=0
      if not len(t):
          return e
      temp = np.unique(t)
      for i in temp:
          temp2 = len(np.where(t == i))
          p = temp2 / len(t)
          e -= p * np.log2(p)
      return e
  \<close>
  The body reads the global \<^verbatim>\<open>t\<close> and never its parameter. \<^verbatim>\<open>len(np.where(t == i))\<close>
  is the length of the tuple \<^verbatim>\<open>np.where\<close> returns.
\<close>

definition entropy :: "globals \<Rightarrow> int list \<Rightarrow> pyerror + pynum" where
  "entropy G y =
     (case t_binding G of
        None \<Rightarrow> Inl (NameError ''t'')
      | Some t \<Rightarrow>
          if length t = 0 then Inr (PyInt 0)
          else Inr (fold (\<lambda>i e.
                       let temp2 = length (np_where (map (\<lambda>x. x = i) t));
                           p = real temp2 / real (length t)
                       in num_sub e (NpFloat (Fin (p * log 2 p))))
                     (np_unique t) (PyInt 0)))"

text \<open>
  \<^verbatim>\<open>
  @staticmethod
  def information_gain(X, y, thresh):
      start = DecisionTree.entropy(y)
      left, right = y[X > thresh], y[X <= thresh]
      len_left, len_right = len(left), len(right)
      left_entropy, right_entropy = DecisionTree.entropy(left),DecisionTree.entropy(right)
      return start - (len_left * left_entropy + len_right * right_entropy) / (len(y))
  \<close>
  \<^verbatim>\<open>X\<close> is one column of the feature matrix. The second statement, the partition of the
  labels, is \<open>gain_partition\<close>.
\<close>

definition gain_partition :: "real list \<Rightarrow> int list \<Rightarrow> real \<Rightarrow> pyerror + (int list \<times> int list)" where
  "gain_partition X y thresh =
     (case bool_index y (map (\<lambda>x. x > thresh) X) of
        Inl e \<Rightarrow> Inl e
      | Inr left \<Rightarrow>
          (case bool_index y (map (\<lambda>x. x \<le> thresh) X) of
             Inl e \<Rightarrow> Inl e
           | Inr right \<Rightarrow> Inr (left, right)))"

definition information_gain :: "globals \<Rightarrow> real list \<Rightarrow> int list \<Rightarrow> real \<Rightarrow> pyerror + pynum" where
  "information_gain G X y thresh =
     (case entropy G y of
        Inl e \<Rightarrow> Inl e
      | Inr start \<Rightarrow>
     (case gain_partition X y thresh of
        Inl e \<Rightarrow> Inl e
      | Inr (left, right) \<Rightarrow>
     (case entropy G left of
        Inl e \<Rightarrow> Inl e
      | Inr left_entropy \<Rightarrow>
     (case entropy G right of
        Inl e \<Rightarrow> Inl e
      | Inr right_entropy \<Rightarrow>
     (case num_truediv
             (num_add (num_mul (PyInt (int (length left))) left_entropy)
                      (num_mul (PyInt (int (length right))) right_entropy))
             (PyInt (int (length y))) of
        Inl e \<Rightarrow> Inl e
      | Inr q \<Rightarrow> Inr (num_sub start q))))))"

section \<open>Splitting a dataset\<close>

text \<open>
  \<^verbatim>\<open>
  def split_test(self, X, idx, thresh):
      idx0 = np.where(X[:, idx] < thresh)[0]
      idx1 = np.where(X[:, idx] >= thresh)[0]
      X0, X1 = X[idx0, :], X[idx1, :]
      return X0, idx0, X1, idx1
  \<close>
  A column index outside \<open>0..<D\<close> raises IndexError (negative indices, which numpy counts
  from the end, are not modelled: \<^verbatim>\<open>fit\<close> only passes the index \<^verbatim>\<open>np.unravel_index\<close>
  returns).
\<close>

definition split_test :: "matrix \<Rightarrow> nat \<Rightarrow> real \<Rightarrow> pyerror + (matrix \<times> nat list \<times> matrix \<times> nat list)" where
  "split_test X idx thresh =
     (if idx < ncols X then
        (let idx0 = np_where (map (\<lambda>x. x < thresh) (col X idx)) ! 0;
             idx1 = np_where (map (\<lambda>x. x \<ge> thresh) (col X idx)) ! 0
         in Inr (take_rows X idx0, idx0, take_rows X idx1, idx1))
      else Inl IndexError)"

text \<open>
  \<^verbatim>\<open>
  def split(self, X, y, idx, thresh):
      X0, idx0, X1, idx1 = self.split_test(X, idx=idx, thresh=thresh)
      y0, y1 = y[idx0], y[idx1]
      return X0, y0, X1, y1
  \<close>
\<close>

definition split :: "matrix \<Rightarrow> int list \<Rightarrow> nat \<Rightarrow> real \<Rightarrow> pyerror + (matrix \<times> int list \<times> matrix \<times> int list)" where
  "split X y idx thresh =
     (case split_test X idx thresh of
        Inl e \<Rightarrow> Inl e
      | Inr (X0, idx0, X1, idx1) \<Rightarrow>
          (case int_index y idx0 of
             Inl e \<Rightarrow> Inl e
           | Inr y0 \<Rightarrow>
               (case int_index y idx1 of
                  Inl e \<Rightarrow> Inl e
                | Inr y1 \<Rightarrow> Inr (X0, y0, X1, y1))))"

section \<open>The split search of fit\<close>

text \<open>
  The first half of \<^verbatim>\<open>fit\<close>, run when \<^verbatim>\<open>self.max_depth > 0\<close>:
  \<^verbatim>\<open>
  eps = 1e-5  # a small number
  ...
      gains = []
      # The following logic prevents thresholding on exactly the minimum
      # or maximum values, which may not lead to any meaningful node
      # splits.
      thresh = np.array([
          np.linspace(np.min(X[:, i]) + eps, np.max(X[:, i]) - eps, num=10)
          for i in range(X.shape[1])
      ])
      for i in range(X.shape[1]):
          gains.append([self.information_gain(X[:, i], y, t) for t in
      thresh[i, :]])
      gains = np.nan_to_num(np.array(gains))
      self.split_idx, thresh_idx = np.unravel_index(np.argmax(gains),
          gains.shape)
      self.thresh = thresh[self.split_idx, thresh_idx]
  \<close>
  \<^verbatim>\<open>np.linspace(start, stop, num)\<close> returns \<open>start + i * step\<close> for \<open>i = 0, ..., num - 1\<close>
  with \<open>step = (stop - start) / (num - 1)\<close>; \<^verbatim>\<open>np.min\<close> and \<^verbatim>\<open>np.max\<close> raise ValueError on
  an empty array. A list comprehension or loop that calls a function which can raise stops
  at the first exception (\<open>collect\<close>).
\<close>

definition eps :: real where
  "eps = 1 / 100000"

definition np_linspace :: "real \<Rightarrow> real \<Rightarrow> nat \<Rightarrow> real list" where
  "np_linspace start stop num =
     map (\<lambda>i. start + real i * ((stop - start) / real (num - 1))) [0..<num]"

fun np_min :: "real list \<Rightarrow> pyerror + real" where
  "np_min [] = Inl ValueError"
| "np_min (x # xs) = Inr (fold min xs x)"

fun np_max :: "real list \<Rightarrow> pyerror + real" where
  "np_max [] = Inl ValueError"
| "np_max (x # xs) = Inr (fold max xs x)"

fun collect :: "(pyerror + 'a) list \<Rightarrow> pyerror + 'a list" where
  "collect [] = Inr []"
| "collect (r # rs) =
     (case r of
        Inl e \<Rightarrow> Inl e
      | Inr v \<Rightarrow> (case collect rs of Inl e \<Rightarrow> Inl e | Inr vs \<Rightarrow> Inr (v # vs)))"

definition column_thresholds :: "real list \<Rightarrow> pyerror + real list" where
  "column_thresholds c =
     (case np_min c of
        Inl e \<Rightarrow> Inl e
      | Inr lo \<Rightarrow>
          (case np_max c of
             Inl e \<Rightarrow> Inl e
           | Inr hi \<Rightarrow> Inr (np_linspace (lo + eps) (hi - eps) 10)))"

definition thresholds :: "matrix \<Rightarrow> pyerror + real list list" where
  "thresholds X = collect (map (\<lambda>i. column_thresholds (col X i)) [0..<ncols X])"

definition gains :: "globals \<Rightarrow> matrix \<Rightarrow> int list \<Rightarrow> real list list \<Rightarrow> pyerror + pynum list list" where
  "gains G X y thresh =
     collect (map (\<lambda>i. collect (map (\<lambda>t. information_gain G (col X i) y t) (thresh ! i)))
                  [0..<ncols X])"

text \<open>
  \<^verbatim>\<open>np.nan_to_num\<close> with its default arguments replaces \<open>nan\<close> by \<open>0.0\<close>, \<open>+inf\<close> by the
  largest finite float64 and \<open>-inf\<close> by the most negative one. \<^verbatim>\<open>np.argmax\<close> raises
  ValueError on an empty array; otherwise it scans the flattened array keeping the first
  maximum (an element replaces the current maximum when \<open>element <= maximum\<close> is false, and
  the scan stops at a \<open>nan\<close>). \<^verbatim>\<open>np.unravel_index(k, (D, n))\<close> is \<open>(k div n, k mod n)\<close>.
\<close>

definition float_max :: real where
  "float_max = (2 - 1 / 2 ^ 52) * 2 ^ 1023"

fun nan_to_num :: "npfloat \<Rightarrow> npfloat" where
  "nan_to_num (Fin a) = Fin a"
| "nan_to_num NaN = Fin 0"
| "nan_to_num PosInf = Fin float_max"
| "nan_to_num NegInf = Fin (- float_max)"

fun f_le :: "npfloat \<Rightarrow> npfloat \<Rightarrow> bool" where
  "f_le (Fin a) (Fin b) = (a \<le> b)"
| "f_le NaN b = False"
| "f_le a NaN = False"
| "f_le NegInf b = True"
| "f_le a PosInf = True"
| "f_le a b = False"

fun argmax_loop :: "npfloat list \<Rightarrow> nat \<Rightarrow> nat \<Rightarrow> npfloat \<Rightarrow> nat" where
  "argmax_loop [] i max_ind mp = max_ind"
| "argmax_loop (x # xs) i max_ind mp =
     (if mp = NaN then max_ind
      else if \<not> f_le x mp then argmax_loop xs (Suc i) i x
      else argmax_loop xs (Suc i) max_ind mp)"

definition np_argmax :: "npfloat list \<Rightarrow> pyerror + nat" where
  "np_argmax xs = (case xs of [] \<Rightarrow> Inl ValueError | x # rest \<Rightarrow> Inr (argmax_loop rest 1 0 x))"

definition clean_gains :: "pynum list list \<Rightarrow> npfloat list list" where
  "clean_gains gs = map (map (\<lambda>g. nan_to_num (to_f64 g))) gs"

definition best_candidate :: "pynum list list \<Rightarrow> pyerror + (nat \<times> nat)" where
  "best_candidate gs =
     (let g = clean_gains gs in
      case np_argmax (concat g) of
        Inl e \<Rightarrow> Inl e
      | Inr k \<Rightarrow> Inr (k div length (g ! 0), k mod length (g ! 0)))"

definition select_split :: "globals \<Rightarrow> matrix \<Rightarrow> int list \<Rightarrow> pyerror + (nat \<times> real)" where
  "select_split G X y =
     (case thresholds X of
        Inl e \<Rightarrow> Inl e
      | Inr thresh \<Rightarrow>
          (case gains G X y thresh of
             Inl e \<Rightarrow> Inl e
           | Inr gs \<Rightarrow>
               (case best_candidate gs of
                  Inl e \<Rightarrow> Inl e
                | Inr (split_idx, thresh_idx) \<Rightarrow> Inr (split_idx, thresh ! split_idx ! thresh_idx))))"

section \<open>Tree nodes and fit\<close>

text \<open>
  \<^verbatim>\<open>
  def __init__(self, max_depth=3, feature_labels=None):
      self.max_depth = max_depth
      self.features = feature_labels
      self.left, self.right = None, None  # for non-leaf nodes
      self.split_idx, self.thresh = None, None  # for non-leaf nodes
      self.data, self.pred = None, None  # for leaf nodes
  \<close>
  A node holds its attributes and its two children. \<^verbatim>\<open>self.labels\<close> does not exist before
  \<^verbatim>\<open>fit\<close> assigns it (\<open>None\<close> here). \<^verbatim>\<open>self.features\<close>, the feature names, is read only by
  \<^verbatim>\<open>__repr__\<close> and handed unchanged to the children; it is left out.
\<close>

record node_attrs =
  max_depth :: int
  split_idx :: "nat option"
  thresh :: "real option"
  data :: "matrix option"
  labels :: "int list option"
  pred :: "int option"

datatype node = Node (attrs: node_attrs) (left: "node option") (right: "node option")

definition DecisionTree :: "int \<Rightarrow> node" where
  "DecisionTree d =
     Node \<lparr>max_depth = d, split_idx = None, thresh = None, data = None, labels = None,
           pred = None\<rparr> None None"

text \<open>
  \<^verbatim>\<open>
  def fit(self, X, y):
      if self.max_depth > 0:
          ... (the split search above)
          X0, y0, X1, y1 = self.split(X, y, idx=self.split_idx,
              thresh=self.thresh)
          if X0.size > 0 and X1.size > 0:
              self.left = DecisionTree(max_depth=self.max_depth - 1, feature_labels=self.features)
              self.left.fit(X0, y0)
              self.right = DecisionTree(max_depth=self.max_depth - 1, feature_labels=self.features)
              self.right.fit(X1, y1)
          else:
              self.max_depth = 0
              self.data, self.labels = X, y
              self.pred = stats.mode(y, keepdims=True).mode[0]
      else:
          self.data, self.labels = X, y
          self.pred = stats.mode(y, keepdims=True).mode[0]
      return self
  \<close>
  \<^verbatim>\<open>fit\<close> mutates the node in place, so the model returns the outcome (\<open>Inl\<close> an exception,
  \<open>Inr ()\<close> a normal return) together with the node as it is when the call ends, also when
  it ends with an exception. \<open>make_leaf\<close> is the pair of statements that both leaf branches
  share. The recursion goes down with the depth budget.
\<close>

definition make_leaf :: "globals \<Rightarrow> node \<Rightarrow> matrix \<Rightarrow> int list \<Rightarrow> (pyerror + unit) \<times> node" where
  "make_leaf G nd X y =
     (let nd1 = Node ((attrs nd)\<lparr>data := Some X, labels := Some y\<rparr>) (left nd) (right nd) in
      case stats_binding G of
        None \<Rightarrow> (Inl (NameError ''stats''), nd1)
      | Some stats_mode \<Rightarrow>
          (case stats_mode y of
             Inl e \<Rightarrow> (Inl e, nd1)
           | Inr m \<Rightarrow> (Inr (), Node ((attrs nd1)\<lparr>pred := Some m\<rparr>) (left nd1) (right nd1))))"

function fit :: "globals \<Rightarrow> node \<Rightarrow> matrix \<Rightarrow> int list \<Rightarrow> (pyerror + unit) \<times> node" where
  "fit G nd X y =
     (if max_depth (attrs nd) > 0 then
        (case select_split G X y of
           Inl e \<Rightarrow> (Inl e, nd)
         | Inr (si, th) \<Rightarrow>
             (let nd1 = Node ((attrs nd)\<lparr>split_idx := Some si, thresh := Some th\<rparr>)
                             (left nd) (right nd) in
              case split X y si th of
                Inl e \<Rightarrow> (Inl e, nd1)
              | Inr (X0, y0, X1, y1) \<Rightarrow>
                  if msize X0 > 0 \<and> msize X1 > 0 then
                    (case fit G (DecisionTree (max_depth (attrs nd) - 1)) X0 y0 of
                       (Inl e, l) \<Rightarrow> (Inl e, Node (attrs nd1) (Some l) (right nd1))
                     | (Inr u, l) \<Rightarrow>
                         (case fit G (DecisionTree (max_depth (attrs nd) - 1)) X1 y1 of
                            (Inl e, r) \<Rightarrow> (Inl e, Node (attrs nd1) (Some l) (Some r))
                          | (Inr u', r) \<Rightarrow> (Inr (), Node (attrs nd1) (Some l) (Some r))))
                  else make_leaf G (Node ((attrs nd1)\<lparr>max_depth := 0\<rparr>) (left nd1) (right nd1)) X y))
      else make_leaf G nd X y)"
  by pat_completeness auto
termination
  by (relation "measure (\<lambda>(G, nd, X, y). nat (max_depth (attrs nd)))")
     (auto simp: DecisionTree_def)

section \<open>BaggedTrees.predict\<close>

text \<open>
  \<^verbatim>\<open>
  def predict(self, X):
      predictions = np.zeros((len(X), self.n))
      for i, tree in enumerate(self.decision_trees):
          predictions[:, i] = tree.predict(X)
      return mode(predictions, axis=1)[0].ravel()
  \<close>
  The members are sklearn's \<^verbatim>\<open>DecisionTreeClassifier\<close>s, which are not code of this module:
  a fitted member is the function from a row to the label it predicts, so that
  \<^verbatim>\<open>tree.predict(X)\<close> is that function mapped over the rows. \<open>n_members\<close> is \<^verbatim>\<open>self.n\<close>;
  the constructor creates \<^verbatim>\<open>self.n\<close> members.
\<close>

record bagged_trees =
  n_members :: nat
  decision_trees :: "(real list \<Rightarrow> real) list"

fun fill_columns :: "(real list \<Rightarrow> real) list \<Rightarrow> nat \<Rightarrow> matrix \<Rightarrow> matrix \<Rightarrow> pyerror + matrix" where
  "fill_columns [] i X predictions = Inr predictions"
| "fill_columns (tree # trees) i X predictions =
     (if i < ncols predictions then
        fill_columns trees (Suc i) X
          (predictions\<lparr>rows := map (\<lambda>(r, v). r[i := v])
                                    (zip (rows predictions) (map tree (rows X)))\<rparr>)
      else Inl IndexError)"

definition predict :: "globals \<Rightarrow> bagged_trees \<Rightarrow> matrix \<Rightarrow> pyerror + real list" where
  "predict G B X =
     (case fill_columns (decision_trees B) 0 X
             \<lparr>ncols = n_members B,
              rows = replicate (length (rows X)) (replicate (n_members B) 0)\<rparr> of
        Inl e \<Rightarrow> Inl e
      | Inr predictions \<Rightarrow>
          (case mode_binding G of
             None \<Rightarrow> Inl (NameError ''mode'')
           | Some row_mode \<Rightarrow> row_mode (rows predictions)))"

section \<open>Properties of the split and of the two partitions\<close>







section \<open>Properties of the impurity functions\<close>

lemma entropy_unbound: "t_binding G = None \<Longrightarrow> entropy G y = Inl (NameError ''t'')"
  by (simp add: entropy_def)

lemma entropy_ignores_argument: "entropy G y = entropy G y'"
  by (simp add: entropy_def)

lemma fold_sub_float64:
  "\<exists>r. fold (\<lambda>i e. num_sub e (NpFloat (Fin (g i)))) xs (NpFloat (Fin a)) = NpFloat (Fin r)"
  by (induction xs arbitrary: a) (simp_all add: num_sub_def f_sub_def)

lemma np_unique_nonempty: "t \<noteq> [] \<Longrightarrow> np_unique t \<noteq> []"
proof -
  assume "t \<noteq> []"
  then have "set (np_unique t) \<noteq> {}"
    by (simp add: np_unique_def)
  then show ?thesis by auto
qed

lemma entropy_bound_nonempty:
  assumes "t_binding G = Some t" and "t \<noteq> []"
  shows "\<exists>r. entropy G y = Inr (NpFloat (Fin r))"
proof -
  from assms(2) obtain u us where u: "np_unique t = u # us"
    using np_unique_nonempty by (cases "np_unique t") auto
  show ?thesis
    using assms fold_sub_float64
    by (simp add: entropy_def u Let_def num_sub_def f_sub_def)
qed

lemma entropy_bound_empty: "t_binding G = Some [] \<Longrightarrow> entropy G y = Inr (PyInt 0)"
  by (simp add: entropy_def)

text \<open>
  Were \<^verbatim>\<open>t\<close> bound to a label array, the count of each class would still be the length
  of \<^verbatim>\<open>np.where\<close>'s tuple, which is 1: on the single-class array \<open>[0, 0]\<close>, whose entropy
  is 0, the body computes \<open>1/2\<close>.
\<close>

lemma entropy_bound_single_class:
  "t_binding G = Some [0, 0] \<Longrightarrow> entropy G y = Inr (NpFloat (Fin (1 / 2)))"
  by (simp add: entropy_def np_unique_def np_where_def num_sub_def f_sub_def log_divide)

text \<open>
  C2. The claim is that \<^verbatim>\<open>entropy(labels)\<close> is \<open>- \<Sum> p\<^sub>c log\<^sub>2 p\<^sub>c\<close> over the class proportions,
  and 0 on empty input. In the module as written \<^verbatim>\<open>entropy\<close> returns nothing: for every
  label array, the empty one included, its first test reads the unbound name \<^verbatim>\<open>t\<close> and
  raises NameError.
\<close>

theorem entropy_raises_NameError: "entropy module_globals y = Inl (NameError ''t'')"
  by (simp add: entropy_unbound module_globals_def)

text \<open>
  C3. The claim is that \<^verbatim>\<open>information_gain\<close> returns the entropy of the labels minus the
  weighted entropies of the two parts. In the module as written its first statement
  calls \<^verbatim>\<open>entropy\<close>, so every call raises NameError before the labels are partitioned.
\<close>

theorem information_gain_raises_NameError:
  "information_gain module_globals X y th = Inl (NameError ''t'')"
  by (simp add: information_gain_def entropy_unbound module_globals_def)



text \<open>
  Where \<^verbatim>\<open>information_gain\<close> returns on a non-empty label vector, the gain is finite.
\<close>

lemma finite_num_simps:
  "finite_num (PyInt i)" "finite_num (PyFloat r)" "finite_num (NpFloat (Fin a))"
  "\<not> finite_num (NpFloat NaN)" "\<not> finite_num (NpFloat PosInf)" "\<not> finite_num (NpFloat NegInf)"
  by (simp_all add: finite_num_def)

lemma finite_num_cases:
  assumes "finite_num v"
  obtains i where "v = PyInt i" | r where "v = PyFloat r" | a where "v = NpFloat (Fin a)"
proof (cases v)
  case (PyInt i)
  then show ?thesis using that by blast
next
  case (PyFloat r)
  then show ?thesis using that by blast
next
  case (NpFloat f)
  then show ?thesis
    using assms that by (cases f) (simp_all add: finite_num_def)
qed

lemma entropy_finite: "entropy G y = Inr e \<Longrightarrow> finite_num e"
proof (cases "t_binding G")
  case None
  assume "entropy G y = Inr e"
  with None show ?thesis by (simp add: entropy_unbound)
next
  case (Some t)
  assume r: "entropy G y = Inr e"
  show ?thesis
  proof (cases "t = []")
    case True
    with Some r show ?thesis
      by (auto simp: entropy_bound_empty finite_num_simps)
  next
    case False
    then obtain a where "entropy G y = Inr (NpFloat (Fin a))"
      using Some entropy_bound_nonempty by blast
    with r show ?thesis
      by (auto simp: finite_num_simps)
  qed
qed

lemma finite_num_mul: "finite_num b \<Longrightarrow> finite_num (num_mul (PyInt n) b)"
  by (erule finite_num_cases) (simp_all add: num_mul_def finite_num_simps)

lemma finite_num_add: "finite_num a \<Longrightarrow> finite_num b \<Longrightarrow> finite_num (num_add a b)"
  by (erule finite_num_cases; erule finite_num_cases) (simp_all add: num_add_def finite_num_simps)

lemma finite_num_sub: "finite_num a \<Longrightarrow> finite_num b \<Longrightarrow> finite_num (num_sub a b)"
  by (erule finite_num_cases; erule finite_num_cases)
     (simp_all add: num_sub_def f_sub_def finite_num_simps)

lemma finite_num_truediv:
  "finite_num a \<Longrightarrow> n \<noteq> 0 \<Longrightarrow> num_truediv a (PyInt n) = Inr q \<Longrightarrow> finite_num q"
  by (erule finite_num_cases) (auto simp: finite_num_simps)

lemma information_gain_finite:
  assumes "information_gain G c y t = Inr v" and "y \<noteq> []"
  shows "finite_num v"
proof -
  from assms(1) obtain start l r le re q where
    s: "entropy G y = Inr start" and l: "entropy G l = Inr le" and r: "entropy G r = Inr re"
    and q: "num_truediv (num_add (num_mul (PyInt (int (length l))) le)
                                 (num_mul (PyInt (int (length r))) re))
                        (PyInt (int (length y))) = Inr q"
    and v: "v = num_sub start q"
    by (auto simp: information_gain_def split: sum.splits prod.splits)
  have "finite_num (num_add (num_mul (PyInt (int (length l))) le)
                            (num_mul (PyInt (int (length r))) re))"
    using l r by (simp add: entropy_finite finite_num_mul finite_num_add)
  moreover have "int (length y) \<noteq> 0"
    using assms(2) by simp
  ultimately have "finite_num q"
    using q finite_num_truediv by blast
  then show ?thesis
    using s v by (simp add: entropy_finite finite_num_sub)
qed

lemma num_truediv_nonzero:
  "finite_num a \<Longrightarrow> n \<noteq> 0 \<Longrightarrow> \<exists>q. num_truediv a (PyInt n) = Inr q"
  by (erule finite_num_cases) simp_all

text \<open>
  On a non-empty label vector of the feature vector's length nothing is divided by zero:
  whenever \<^verbatim>\<open>entropy\<close> returns, \<^verbatim>\<open>information_gain\<close> returns a finite gain.
\<close>

lemma information_gain_total_nonempty:
  assumes "t_binding G = Some t" and "y \<noteq> []" and "length X = length y"
  shows "\<exists>v. information_gain G X y th = Inr v \<and> finite_num v"
proof -
  have ent: "\<And>z. \<exists>e. entropy G z = Inr e"
    using assms(1) by (simp add: entropy_def)
  obtain start where s: "entropy G y = Inr start"
    using ent by blast
  obtain l r where p: "gain_partition X y th = Inr (l, r)"
    using assms(3) by (simp add: gain_partition_def bool_index_def)
  obtain le where l: "entropy G l = Inr le"
    using ent by blast
  obtain re where r: "entropy G r = Inr re"
    using ent by blast
  have "finite_num (num_add (num_mul (PyInt (int (length l))) le)
                            (num_mul (PyInt (int (length r))) re))"
    using l r by (simp add: entropy_finite finite_num_mul finite_num_add)
  moreover have "int (length y) \<noteq> 0"
    using assms(2) by simp
  ultimately obtain q where
    "num_truediv (num_add (num_mul (PyInt (int (length l))) le)
                          (num_mul (PyInt (int (length r))) re))
                 (PyInt (int (length y))) = Inr q"
    using num_truediv_nonzero by blast
  then have "information_gain G X y th = Inr (num_sub start q)"
    using s p l r by (simp add: information_gain_def)
  then show ?thesis
    using assms(2) information_gain_finite by blast
qed

lemma information_gain_lengths:
  "information_gain G c y t = Inr v \<Longrightarrow> length c = length y"
  by (auto simp: information_gain_def gain_partition_def bool_index_def
      split: sum.splits prod.splits if_splits)

lemma information_gain_length_mismatch:
  assumes "length c \<noteq> length y"
  shows "\<exists>e. information_gain G c y t = Inl e"
proof -
  have "gain_partition c y t = Inl IndexError"
    using assms by (simp add: gain_partition_def bool_index_def)
  then show ?thesis
    by (cases "entropy G y") (simp_all add: information_gain_def)
qed

section \<open>Properties of the candidate thresholds\<close>

lemma collect_Inl_head: "collect (Inl e # rs) = Inl e"
  by simp

lemma collect_Inr_length: "collect rs = Inr vs \<Longrightarrow> length vs = length rs"
  by (induction rs arbitrary: vs) (auto split: sum.splits)

lemma collect_Inr_nth: "collect rs = Inr vs \<Longrightarrow> i < length rs \<Longrightarrow> rs ! i = Inr (vs ! i)"
proof (induction rs arbitrary: vs i)
  case Nil
  then show ?case by simp
next
  case (Cons r rs)
  then show ?case
    by (cases i) (auto split: sum.splits)
qed

lemma np_min_nonempty: "c \<noteq> [] \<Longrightarrow> np_min c = Inr (Min (set c))"
proof (cases c)
  case Nil
  assume "c \<noteq> []"
  with Nil show ?thesis by simp
next
  case (Cons x xs)
  have "Min (set (x # xs)) = fold min xs x"
    by (rule Min.set_eq_fold)
  with Cons show ?thesis by simp
qed

lemma np_max_nonempty: "c \<noteq> [] \<Longrightarrow> np_max c = Inr (Max (set c))"
proof (cases c)
  case Nil
  assume "c \<noteq> []"
  with Nil show ?thesis by simp
next
  case (Cons x xs)
  have "Max (set (x # xs)) = fold max xs x"
    by (rule Max.set_eq_fold)
  with Cons show ?thesis by simp
qed

lemma length_np_linspace: "length (np_linspace a b n) = n"
  by (simp add: np_linspace_def)

lemma np_linspace_nth:
  "k < n \<Longrightarrow> np_linspace a b n ! k = a + real k * ((b - a) / real (n - 1))"
  by (simp add: np_linspace_def)

lemma np_linspace_ends: "np_linspace a b 10 ! 0 = a" "np_linspace a b 10 ! 9 = b"
  by (simp_all add: np_linspace_nth field_simps)

lemma column_thresholds_empty: "column_thresholds [] = Inl ValueError"
  by (simp add: column_thresholds_def)

lemma column_thresholds_nonempty:
  "c \<noteq> [] \<Longrightarrow>
   column_thresholds c = Inr (np_linspace (Min (set c) + eps) (Max (set c) - eps) 10)"
  by (simp add: column_thresholds_def np_min_nonempty np_max_nonempty)

text \<open>
  For a non-empty column the ten thresholds are evenly spaced from \<open>min + eps\<close> to
  \<open>max - eps\<close>, and none of them is the column's minimum or maximum when the column's
  spread \<open>max - min\<close> exceeds \<open>eps\<close>.
\<close>

lemma column_thresholds_spacing:
  assumes "c \<noteq> []"
  shows "\<exists>ths. column_thresholds c = Inr ths \<and> length ths = 10
           \<and> (\<forall>k<10. ths ! k = (Min (set c) + eps)
                  + real k * ((Max (set c) - eps - (Min (set c) + eps)) / 9))
           \<and> ths ! 0 = Min (set c) + eps \<and> ths ! 9 = Max (set c) - eps"
proof -
  define lo where "lo = Min (set c)"
  define hi where "hi = Max (set c)"
  have "column_thresholds c = Inr (np_linspace (lo + eps) (hi - eps) 10)"
    using assms by (simp add: column_thresholds_nonempty lo_def hi_def)
  moreover have "length (np_linspace (lo + eps) (hi - eps) 10) = 10"
    by (rule length_np_linspace)
  moreover have "\<forall>k<10. np_linspace (lo + eps) (hi - eps) 10 ! k
      = (lo + eps) + real k * ((hi - eps - (lo + eps)) / 9)"
    by (simp add: np_linspace_nth)
  moreover have "np_linspace (lo + eps) (hi - eps) 10 ! 0 = lo + eps"
    "np_linspace (lo + eps) (hi - eps) 10 ! 9 = hi - eps"
    by (rule np_linspace_ends)+
  ultimately show ?thesis
    unfolding lo_def hi_def by blast
qed

lemma column_thresholds_avoid_extremes:
  assumes "c \<noteq> []" and "Max (set c) - Min (set c) > eps" and "column_thresholds c = Inr ths"
    and "k < 10"
  shows "ths ! k \<noteq> Min (set c) \<and> ths ! k \<noteq> Max (set c)"
proof -
  define lo where "lo = Min (set c)"
  define hi where "hi = Max (set c)"
  have e: "eps > 0" by (simp add: eps_def)
  have "column_thresholds c = Inr (np_linspace (lo + eps) (hi - eps) 10)"
    using assms(1) by (simp add: column_thresholds_nonempty lo_def hi_def)
  then have "ths = np_linspace (lo + eps) (hi - eps) 10"
    using assms(3) by simp
  then have ths: "ths ! k = (lo + eps) + real k * ((hi - eps - (lo + eps)) / 9)"
    using assms(4) by (simp add: np_linspace_nth)
  have s: "hi - lo > eps" using assms(2) by (simp add: lo_def hi_def)
  have k: "k \<in> {0,1,2,3,4,5,6,7,8,9}" using assms(4) by auto
  have "(lo + eps) + real k * ((hi - eps - (lo + eps)) / 9) \<noteq> lo"
    using e s k by (elim insertE emptyE) (simp_all add: field_simps)
  moreover have "(lo + eps) + real k * ((hi - eps - (lo + eps)) / 9) \<noteq> hi"
    using e s k by (elim insertE emptyE) (simp_all add: field_simps)
  ultimately show ?thesis
    using ths by (simp add: lo_def hi_def)
qed

lemma thresholds_no_rows:
  assumes "ncols X > 0" and "rows X = []"
  shows "thresholds X = Inl ValueError"
proof -
  have "[0..<ncols X] = 0 # [1..<ncols X]"
    using assms(1) by (simp add: upt_conv_Cons)
  moreover have "col X 0 = []"
    using assms(2) by (simp add: col_def)
  ultimately show ?thesis
    by (simp add: thresholds_def column_thresholds_empty)
qed

lemma thresholds_row_length:
  assumes "thresholds X = Inr ths" and "i < ncols X"
  shows "length (ths ! i) = 10"
proof -
  have "map (\<lambda>i. column_thresholds (col X i)) [0..<ncols X] ! i = Inr (ths ! i)"
    using assms collect_Inr_nth [of _ ths i] by (simp add: thresholds_def)
  then have "column_thresholds (col X i) = Inr (ths ! i)"
    using assms(2) by simp
  then have "\<exists>a b. np_linspace a b 10 = ths ! i"
    by (auto simp: column_thresholds_def split: sum.splits)
  then obtain a b where "ths ! i = np_linspace a b 10"
    by metis
  then show ?thesis
    by (simp add: length_np_linspace)
qed

text \<open>
  C6. The claim is that each feature gets 10 evenly spaced thresholds between
  \<open>min + eps\<close> and \<open>max - eps\<close>, none equal to the column's minimum or maximum. For the
  column \<open>[0, 1e-5]\<close>, whose spread is \<open>eps\<close>, the ten thresholds run from \<open>0 + eps\<close>, which is
  the column's maximum, down to \<open>1e-5 - eps = 0\<close>, which is its minimum.
\<close>

theorem thresholds_reach_min_and_max:
  "thresholds \<lparr>ncols = 1, rows = [[0], [1 / 100000]]\<rparr>
     = Inr [[1 / 100000, 1 / 112500, 7 / 900000, 1 / 150000, 1 / 180000,
             1 / 225000, 1 / 300000, 1 / 450000, 1 / 900000, 0]]
   \<and> np_max (col \<lparr>ncols = 1, rows = [[0], [1 / 100000]]\<rparr> 0) = Inr (1 / 100000)
   \<and> np_min (col \<lparr>ncols = 1, rows = [[0], [1 / 100000]]\<rparr> 0) = Inr 0"
  by (simp add: thresholds_def column_thresholds_def col_def np_linspace_def eps_def
      upt_conv_Cons)

section \<open>Properties of the gain comparison\<close>



text \<open>
  Within \<^verbatim>\<open>fit\<close> the replacement never changes a value: the gains that the loop collects
  are all finite, since thresholds exist only for a non-empty column and a gain is
  returned only for a label vector of the column's length.
\<close>

lemma fit_gains_finite:
  assumes "thresholds X = Inr ths" and "gains G X y ths = Inr gs"
  shows "list_all (list_all finite_num) gs"
proof -
  have len: "length gs = ncols X"
    using collect_Inr_length [OF assms(2) [unfolded gains_def]] by simp
  have "list_all finite_num (gs ! i)" if i: "i < ncols X" for i
  proof -
    have row: "collect (map (\<lambda>t. information_gain G (col X i) y t) (ths ! i)) = Inr (gs ! i)"
      using i collect_Inr_nth [OF assms(2) [unfolded gains_def], of i] by simp
    have "column_thresholds (col X i) = Inr (ths ! i)"
      using i collect_Inr_nth [OF assms(1) [unfolded thresholds_def], of i] by simp
    then have ne: "col X i \<noteq> []"
      using column_thresholds_empty by auto
    have rl: "length (gs ! i) = length (ths ! i)"
      using collect_Inr_length [OF row] by simp
    have "finite_num (gs ! i ! j)" if j: "j < length (gs ! i)" for j
    proof -
      have g: "information_gain G (col X i) y (ths ! i ! j) = Inr (gs ! i ! j)"
        using j rl collect_Inr_nth [OF row, of j] by simp
      then have "length (col X i) = length y"
        by (rule information_gain_lengths)
      then have "y \<noteq> []" using ne by auto
      then show ?thesis
        using g information_gain_finite by blast
    qed
    then show ?thesis
      by (simp add: list_all_length)
  qed
  then show ?thesis
    using len by (simp add: list_all_length)
qed

section \<open>Properties of fit\<close>

lemma gains_first_error:
  assumes "ncols X > 0" and "ths ! 0 \<noteq> []"
    and "\<And>t. \<exists>e. information_gain G (col X 0) y t = Inl e"
  shows "\<exists>e. gains G X y ths = Inl e"
proof -
  obtain t ts where ts: "ths ! 0 = t # ts"
    using assms(2) by (cases "ths ! 0") auto
  obtain e where e: "information_gain G (col X 0) y t = Inl e"
    using assms(3) by blast
  have "[0..<ncols X] = 0 # [1..<ncols X]"
    using assms(1) by (simp add: upt_conv_Cons)
  then show ?thesis
    by (simp add: gains_def ts e)
qed

lemma select_split_no_columns: "ncols X = 0 \<Longrightarrow> select_split G X y = Inl ValueError"
  by (simp add: select_split_def thresholds_def gains_def best_candidate_def clean_gains_def
      np_argmax_def)

lemma select_split_no_rows:
  "ncols X > 0 \<Longrightarrow> rows X = [] \<Longrightarrow> select_split G X y = Inl ValueError"
  by (simp add: select_split_def thresholds_no_rows)

lemma select_split_gain_errors:
  assumes "ncols X > 0"
    and "\<And>t. \<exists>e. information_gain G (col X 0) y t = Inl e"
  shows "\<exists>e. select_split G X y = Inl e"
proof (cases "thresholds X")
  case (Inl e)
  then show ?thesis by (simp add: select_split_def)
next
  case (Inr ths)
  then have "length (ths ! 0) = 10"
    using assms(1) thresholds_row_length by blast
  then have "ths ! 0 \<noteq> []" by auto
  then obtain e where "gains G X y ths = Inl e"
    using assms gains_first_error by blast
  then show ?thesis
    using Inr by (simp add: select_split_def)
qed

lemma select_split_length_mismatch:
  assumes "ncols X > 0" and "length (rows X) \<noteq> length y"
  shows "\<exists>e. select_split G X y = Inl e"
proof -
  have "length (col X 0) \<noteq> length y"
    using assms(2) by (simp add: col_def)
  then show ?thesis
    using assms(1) information_gain_length_mismatch select_split_gain_errors by blast
qed

lemma select_split_malformed:
  assumes "length (rows X) \<noteq> length y \<or> rows X = [] \<or> ncols X = 0"
  shows "\<exists>e. select_split G X y = Inl e"
proof (cases "ncols X = 0")
  case True
  then show ?thesis by (simp add: select_split_no_columns)
next
  case False
  then have pos: "ncols X > 0" by simp
  show ?thesis
  proof (cases "rows X = []")
    case True
    then show ?thesis using pos by (simp add: select_split_no_rows)
  next
    case False
    then have "length (rows X) \<noteq> length y"
      using assms pos by auto
    then show ?thesis
      using pos select_split_length_mismatch by blast
  qed
qed

lemma select_split_module: "\<exists>e. select_split module_globals X y = Inl e"
proof (cases "ncols X = 0")
  case True
  then show ?thesis by (simp add: select_split_no_columns)
next
  case False
  then have "ncols X > 0" by simp
  moreover have "\<And>c t. \<exists>e. information_gain module_globals c y t = Inl e"
    by (simp add: information_gain_def entropy_unbound module_globals_def)
  ultimately show ?thesis
    using select_split_gain_errors by blast
qed

lemma fit_leaf: "max_depth (attrs nd) \<le> 0 \<Longrightarrow> fit G nd X y = make_leaf G nd X y"
  by simp

lemma fit_select_error:
  "max_depth (attrs nd) > 0 \<Longrightarrow> select_split G X y = Inl e \<Longrightarrow> fit G nd X y = (Inl e, nd)"
  by simp

text \<open>
  In the module as written no call of \<^verbatim>\<open>fit\<close> returns: with a positive depth budget the
  split search raises, and otherwise the leaf branch does. With \<^verbatim>\<open>stats\<close> bound, the leaf
  branch stores the labels and the value the mode expression computes for them.
\<close>

lemma fit_module_never_returns: "\<exists>e nd'. fit module_globals nd X y = (Inl e, nd')"
proof (cases "max_depth (attrs nd) > 0")
  case True
  then show ?thesis
    using select_split_module [of X y] fit_select_error by blast
next
  case False
  then show ?thesis
    by (simp add: make_leaf_def module_globals_def)
qed

lemma fit_leaf_bound:
  assumes "max_depth (attrs nd) \<le> 0" and "stats_binding G = Some f" and "f y = Inr m"
  shows "fit G nd X y =
           (Inr (), Node ((attrs nd)\<lparr>data := Some X, labels := Some y, pred := Some m\<rparr>)
                         (left nd) (right nd))"
  using assms by (simp add: make_leaf_def)

text \<open>
  C1. The claim is that with depth budget 0 (or a chosen split with an empty side) the node
  becomes a leaf that stores the labels and predicts their majority class. In the module
  as written \<^verbatim>\<open>fit\<close> with depth budget 0 stores \<^verbatim>\<open>X\<close> and \<^verbatim>\<open>y\<close> and then raises NameError
  at \<^verbatim>\<open>stats.mode\<close>, for every input: no prediction is set.
\<close>

theorem fit_depth_zero_raises_NameError:
  "fit module_globals (DecisionTree 0) X y =
     (Inl (NameError ''stats''),
      Node \<lparr>max_depth = 0, split_idx = None, thresh = None, data = Some X, labels = Some y,
            pred = None\<rparr> None None)"
  by (simp add: make_leaf_def DecisionTree_def module_globals_def)

text \<open>
  C8, as amended. \<^verbatim>\<open>fit\<close> does not validate its input. On malformed input (label vector
  of another length than the rows, no rows, or no columns) a node with a positive depth
  budget raises before any attribute is assigned; a node with depth budget 0 or less
  assigns \<^verbatim>\<open>data\<close> and \<^verbatim>\<open>labels\<close> first, leaves \<^verbatim>\<open>left\<close>, \<^verbatim>\<open>right\<close>, \<^verbatim>\<open>split_idx\<close>,
  \<^verbatim>\<open>thresh\<close> and \<^verbatim>\<open>max_depth\<close> as they were, and assigns \<^verbatim>\<open>pred\<close> only if no exception is
  raised.
\<close>

theorem fit_malformed_input:
  assumes "length (rows X) \<noteq> length y \<or> rows X = [] \<or> ncols X = 0"
  shows "if max_depth (attrs nd) > 0 then \<exists>e. fit G nd X y = (Inl e, nd)
         else \<exists>r nd'. fit G nd X y = (r, nd')
              \<and> data (attrs nd') = Some X \<and> labels (attrs nd') = Some y
              \<and> left nd' = left nd \<and> right nd' = right nd
              \<and> split_idx (attrs nd') = split_idx (attrs nd)
              \<and> thresh (attrs nd') = thresh (attrs nd)
              \<and> max_depth (attrs nd') = max_depth (attrs nd)
              \<and> (if isl r then pred (attrs nd') = pred (attrs nd) else pred (attrs nd') \<noteq> None)"
proof (cases "max_depth (attrs nd) > 0")
  case True
  obtain e where "select_split G X y = Inl e"
    using assms select_split_malformed by blast
  then show ?thesis
    using True fit_select_error by simp
next
  case False
  show ?thesis
  proof (cases "stats_binding G")
    case None
    then show ?thesis
      using False by (simp add: make_leaf_def)
  next
    case (Some f)
    then show ?thesis
      using False by (cases "f y") (simp_all add: make_leaf_def)
  qed
qed

theorem fit_malformed_input_witness:
  "(\<exists>e. fit module_globals (DecisionTree 1) \<lparr>ncols = 1, rows = [[0], [1]]\<rparr> [0]
          = (Inl e, DecisionTree 1))
   \<and> (\<exists>r nd'. fit module_globals (DecisionTree 0) \<lparr>ncols = 1, rows = [[0], [1]]\<rparr> [0] = (r, nd')
          \<and> data (attrs nd') = Some \<lparr>ncols = 1, rows = [[0], [1]]\<rparr> \<and> labels (attrs nd') = Some [0]
          \<and> left nd' = None \<and> right nd' = None)"
proof -
  have m: "length (rows \<lparr>ncols = 1, rows = [[0], [1 :: real]]\<rparr>) \<noteq> length [0 :: int]
           \<or> rows \<lparr>ncols = 1, rows = [[0], [1 :: real]]\<rparr> = []
           \<or> ncols \<lparr>ncols = 1, rows = [[0], [1 :: real]]\<rparr> = 0"
    by simp
  have a: "\<exists>e. fit module_globals (DecisionTree 1) \<lparr>ncols = 1, rows = [[0], [1]]\<rparr> [0]
          = (Inl e, DecisionTree 1)"
    using fit_malformed_input [OF m, of "DecisionTree 1" module_globals]
    by (simp add: DecisionTree_def)
  have b: "\<exists>r nd'. fit module_globals (DecisionTree 0) \<lparr>ncols = 1, rows = [[0], [1]]\<rparr> [0] = (r, nd')
          \<and> data (attrs nd') = Some \<lparr>ncols = 1, rows = [[0], [1]]\<rparr> \<and> labels (attrs nd') = Some [0]
          \<and> left nd' = None \<and> right nd' = None"
    using fit_malformed_input [OF m, of "DecisionTree 0" module_globals]
    by (auto simp: DecisionTree_def)
  from a b show ?thesis by blast
qed

text \<open>
  C8 as stated fails with depth budget 0: on an input with no rows the module as written
  raises only after \<^verbatim>\<open>data\<close> and \<^verbatim>\<open>labels\<close> were assigned, and with \<^verbatim>\<open>stats\<close> bound a
  label vector of the wrong length raises nothing at all.
\<close>

theorem fit_malformed_input_counterexample:
  "fit module_globals (DecisionTree 0) \<lparr>ncols = 1, rows = []\<rparr> [] =
     (Inl (NameError ''stats''),
      Node \<lparr>max_depth = 0, split_idx = None, thresh = None,
            data = Some \<lparr>ncols = 1, rows = []\<rparr>, labels = Some [], pred = None\<rparr> None None)
   \<and> fit \<lparr>t_binding = None, stats_binding = Some (\<lambda>y. Inr 0), mode_binding = None\<rparr>
        (DecisionTree 0) \<lparr>ncols = 1, rows = [[1]]\<rparr> [] =
     (Inr (),
      Node \<lparr>max_depth = 0, split_idx = None, thresh = None,
            data = Some \<lparr>ncols = 1, rows = [[1]]\<rparr>, labels = Some [], pred = Some 0\<rparr> None None)"
  by (simp add: make_leaf_def DecisionTree_def module_globals_def)

section \<open>Properties of BaggedTrees.predict\<close>

lemma fill_columns_in_range:
  "i + length trees \<le> ncols P \<Longrightarrow> \<exists>P'. fill_columns trees i X P = Inr P'"
  by (induction trees arbitrary: i P) auto

text \<open>
  C9. The claim is that \<^verbatim>\<open>predict\<close> returns one label per row, the majority vote of the
  members. In the module as written, for an ensemble with as many members as its \<^verbatim>\<open>n\<close>
  (or fewer), \<^verbatim>\<open>predict\<close> fills the prediction matrix and then raises NameError at the
  unbound name \<^verbatim>\<open>mode\<close>, for every input.
\<close>

theorem predict_raises_NameError:
  assumes "length (decision_trees B) \<le> n_members B"
  shows "predict module_globals B X = Inl (NameError ''mode'')"
proof -
  obtain P where "fill_columns (decision_trees B) 0 X
             \<lparr>ncols = n_members B,
              rows = replicate (length (rows X)) (replicate (n_members B) 0)\<rparr> = Inr P"
    using assms fill_columns_in_range [of 0 "decision_trees B"] by force
  then show ?thesis
    by (simp add: predict_def module_globals_def)
qed

theorem predict_raises_NameError_witness:
  "predict module_globals \<lparr>n_members = 2, decision_trees = [\<lambda>r. 0, \<lambda>r. 1]\<rparr>
     \<lparr>ncols = 1, rows = [[5], [7]]\<rparr> = Inl (NameError ''mode'')"
  using predict_raises_NameError
    [of "\<lparr>n_members = 2, decision_trees = [\<lambda>r. 0, \<lambda>r. 1]\<rparr>" "\<lparr>ncols = 1, rows = [[5], [7]]\<rparr>"]
  by simp

end
